theory Spec2Isabelle
  imports Main "HOL-Library.Word" "HOL-Library.Sublist"
begin

section \<open>The run server of the API server (run_server.go)\<close>

text \<open>
  The run server is a thin layer over its collaborators: the resource manager (the engine),
  the authorizer, and the request validators. None of the collaborators is part of
  run_server.go, so the server is modelled over an environment that holds each of them as a
  function. A collaborator that receives the resource manager may read and change the engine,
  so it is a transformer of the engine's state; a collaborator that receives only values is a
  pure function. Every call the server makes to a state transformer is recorded in a trace,
  so that the theorems can say which collaborators a request reached, and in which order.
\<close>

subsection \<open>Errors\<close>

datatype err_kind = InvalidInput | AuthorizationDenied | NotFound | InternalError

datatype error = Error (kind: err_kind) (message: string)

text \<open>
  Modelled from the spec: the package util (NewInvalidInputError, NewInternalServerError,
  Wrap) is not among the sources. The spec's taxonomy has the four kinds above; a newly made
  error carries its kind and its message; wrapping puts a stage label in front of the
  message and keeps the kind of the underlying error.
\<close>

definition NewInvalidInputError :: "string \<Rightarrow> error" where
  "NewInvalidInputError msg = Error InvalidInput msg"

definition NewInternalServerError :: "string \<Rightarrow> string \<Rightarrow> error" where
  "NewInternalServerError cause msg = Error InternalError (msg @ '': '' @ cause)"

definition Wrap :: "error \<Rightarrow> string \<Rightarrow> error" where
  "Wrap err label = Error (kind err) (label @ '': '' @ message err)"

text \<open>A nil pointer dereference is a fault of the handler, not an error value it returns.\<close>

datatype fault = NilPointerDereference

subsection \<open>Data\<close>

text \<open>
  The reference key of a filter context (common.ReferenceKey). Its type is a string: the
  source compares it with the string literal ExperimentUUID.
\<close>

record ReferenceKey =
  Type :: string
  ID :: string

text \<open>
  Modelled from the spec: the constants common.Namespace and common.Experiment are not
  among the sources. They are the names of the resource types Namespace and Experiment.
\<close>

definition common_Namespace :: string where
  "common_Namespace = ''Namespace''"

definition common_Experiment :: string where
  "common_Experiment = ''Experiment''"

record FilterContext =
  ReferenceKey :: "ReferenceKey option"

record 'v RunMetric =
  Metric_Name :: string
  Metric_NodeId :: string
  Metric_Value :: 'v

text \<open>
  Modelled from the spec: NewReportRunMetricResult is not among the sources. A metric result
  holds the name and the node id of its item and an outcome, which is Ok when the item
  raised no error and the error otherwise.
\<close>

datatype outcome = Ok | Skipped | Failed error

record MetricResult =
  MetricName :: string
  MetricNodeId :: string
  Outcome :: outcome

definition NewReportRunMetricResult :: "string \<Rightarrow> string \<Rightarrow> error option \<Rightarrow> MetricResult" where
  "NewReportRunMetricResult name nodeId err =
     \<lparr>MetricName = name, MetricNodeId = nodeId,
      Outcome = (case err of None \<Rightarrow> Ok | Some e \<Rightarrow> Failed e)\<rparr>"

record ('spec, 'ref) api_Run =
  Name :: string
  PipelineSpec :: 'spec
  ResourceReferences :: "'ref list"

record ('spec, 'ref) CreateRunRequest =
  Run :: "('spec, 'ref) api_Run option"

record 'key ListRunsRequest =
  PageToken :: string
  PageSize :: "32 word"
  SortBy :: string
  ResourceReferenceKey :: "'key option"
  Filter :: string

record ('spec, 'ref) ListRunsResponse =
  Runs :: "('spec, 'ref) api_Run list"
  TotalSize :: "32 word"
  NextPageToken :: string

record 'v ReportRunMetricsRequest =
  RunId :: string
  Metrics :: "'v RunMetric list"

record ReportRunMetricsResponse =
  Results :: "MetricResult list"

record ReadArtifactRequest =
  Artifact_RunId :: string
  Artifact_NodeId :: string
  ArtifactName :: string

subsection \<open>The engine's state and the trace of calls\<close>

datatype ('ctx, 'v) call =
    Call_ValidatePipelineSpec
  | Call_CheckPipelineVersionReference
  | Call_CanAccessExperimentInResourceReferences 'ctx
  | Call_CanAccessExperiment 'ctx string
  | Call_isAuthorized 'ctx string
  | RM_CreateRun
  | RM_GetRun string
  | RM_ListRuns
  | RM_ArchiveRun string
  | RM_UnarchiveRun string
  | RM_DeleteRun string
  | RM_ReportMetric "'v RunMetric" string
  | RM_ReadArtifact string string string
  | RM_TerminateRun string
  | RM_RetryRun string
  | RM_GetNamespaceFromRunID string

record ('w, 'ctx, 'v) state =
  world :: 'w
  trace :: "('ctx, 'v) call list"

definition invoke ::
  "('ctx, 'v) call \<Rightarrow> ('w \<Rightarrow> 'a \<times> 'w) \<Rightarrow> ('w, 'ctx, 'v) state \<Rightarrow> 'a \<times> ('w, 'ctx, 'v) state" where
  "invoke c f s = (case f (world s) of (r, w') \<Rightarrow> (r, \<lparr>world = w', trace = trace s @ [c]\<rparr>))"

subsection \<open>The collaborators\<close>

text \<open>
  The fields are the functions run_server.go calls. IsMultiUserMode is the process-wide mode
  flag. The functions with the prefix rm are the methods of the resource manager. The
  fields fmtResourceKey and fmtReadArtifactRequest stand for the formatting of a value
  into an error message. The arguments of validatedListOptions are the page token, the
  page size, the sort-by and the filter; its first argument in the source is always the
  Run entity. The field authorizeReferences is the decision that
  CanAccessExperimentInResourceReferences takes in multi-user mode.
\<close>

record ('w, 'ctx, 'opts, 'md, 'ad, 'mr, 'spec, 'ref, 'v, 'key) env =
  IsMultiUserMode :: bool
  validatedListOptions :: "string \<Rightarrow> 64 word \<Rightarrow> string \<Rightarrow> string \<Rightarrow> error + 'opts"
  ValidateFilter :: "'key option \<Rightarrow> error + FilterContext"
  ValidateRunMetric :: "'v RunMetric \<Rightarrow> error option"
  ValidatePipelineSpec :: "'spec \<Rightarrow> 'w \<Rightarrow> error option \<times> 'w"
  CheckPipelineVersionReference :: "'ref list \<Rightarrow> 'w \<Rightarrow> (error + string) \<times> 'w"
  authorizeReferences :: "'ctx \<Rightarrow> 'ref list \<Rightarrow> 'w \<Rightarrow> error option \<times> 'w"
  CanAccessExperiment :: "'ctx \<Rightarrow> string \<Rightarrow> 'w \<Rightarrow> error option \<times> 'w"
  isAuthorized :: "'ctx \<Rightarrow> string \<Rightarrow> 'w \<Rightarrow> error option \<times> 'w"
  ToApiRunDetail :: "'md \<Rightarrow> 'ad"
  ToApiRuns :: "'mr list \<Rightarrow> ('spec, 'ref) api_Run list"
  fmtResourceKey :: "'key option \<Rightarrow> string"
  fmtReadArtifactRequest :: "ReadArtifactRequest \<Rightarrow> string"
  rm_CreateRun :: "('spec, 'ref) api_Run \<Rightarrow> 'w \<Rightarrow> (error + 'md) \<times> 'w"
  rm_GetRun :: "string \<Rightarrow> 'w \<Rightarrow> (error + 'md) \<times> 'w"
  rm_ListRuns :: "FilterContext \<Rightarrow> 'opts \<Rightarrow> 'w \<Rightarrow> (error + 'mr list \<times> 64 word \<times> string) \<times> 'w"
  rm_ArchiveRun :: "string \<Rightarrow> 'w \<Rightarrow> error option \<times> 'w"
  rm_UnarchiveRun :: "string \<Rightarrow> 'w \<Rightarrow> error option \<times> 'w"
  rm_DeleteRun :: "string \<Rightarrow> 'w \<Rightarrow> error option \<times> 'w"
  rm_ReportMetric :: "'v RunMetric \<Rightarrow> string \<Rightarrow> 'w \<Rightarrow> error option \<times> 'w"
  rm_ReadArtifact :: "string \<Rightarrow> string \<Rightarrow> string \<Rightarrow> 'w \<Rightarrow> (error + 8 word list) \<times> 'w"
  rm_TerminateRun :: "string \<Rightarrow> 'w \<Rightarrow> error option \<times> 'w"
  rm_RetryRun :: "string \<Rightarrow> 'w \<Rightarrow> error option \<times> 'w"
  rm_GetNamespaceFromRunID :: "string \<Rightarrow> 'w \<Rightarrow> (error + string) \<times> 'w"

text \<open>
  Modelled from the spec: CanAccessExperimentInResourceReferences is not among the sources.
  Single-tenant mode always allows and invokes no authorizer; in multi-tenant mode the
  decision is the collaborator's.
\<close>

definition CanAccessExperimentInResourceReferences ::
  "('w, 'ctx, 'opts, 'md, 'ad, 'mr, 'spec, 'ref, 'v, 'key) env \<Rightarrow> 'ctx \<Rightarrow> 'ref list \<Rightarrow>
   ('w, 'ctx, 'v) state \<Rightarrow> error option \<times> ('w, 'ctx, 'v) state" where
  "CanAccessExperimentInResourceReferences env ctx refs s =
     (if \<not> IsMultiUserMode env then (None, s)
      else invoke (Call_CanAccessExperimentInResourceReferences ctx)
             (authorizeReferences env ctx refs) s)"

subsection \<open>The handlers\<close>

definition canAccessRun ::
  "('w, 'ctx, 'opts, 'md, 'ad, 'mr, 'spec, 'ref, 'v, 'key) env \<Rightarrow> 'ctx \<Rightarrow> string \<Rightarrow>
   ('w, 'ctx, 'v) state \<Rightarrow> error option \<times> ('w, 'ctx, 'v) state" where
  "canAccessRun env ctx runId s =
     (if IsMultiUserMode env = False then (None, s)
      else
        (case invoke (RM_GetNamespaceFromRunID runId) (rm_GetNamespaceFromRunID env runId) s of
           (Inl err, s1) \<Rightarrow> (Some (Wrap err ''Failed to authorize with the run Id.''), s1)
         | (Inr namespace, s1) \<Rightarrow>
             if length namespace = 0
             then (Some (NewInternalServerError ''There is no namespace found''
                           ''There is no namespace found''), s1)
             else
               (case invoke (Call_isAuthorized ctx namespace) (isAuthorized env ctx namespace) s1 of
                  (Some err, s2) \<Rightarrow>
                    (Some (Wrap err ''Failed to authorize with API resource references''), s2)
                | (None, s2) \<Rightarrow> (None, s2))))"

definition validateCreateRunRequest ::
  "('w, 'ctx, 'opts, 'md, 'ad, 'mr, 'spec, 'ref, 'v, 'key) env \<Rightarrow> ('spec, 'ref) CreateRunRequest \<Rightarrow>
   ('w, 'ctx, 'v) state \<Rightarrow> (fault + error option) \<times> ('w, 'ctx, 'v) state" where
  "validateCreateRunRequest env request s =
     (case Run request of
        None \<Rightarrow> (Inl NilPointerDereference, s)
      | Some run \<Rightarrow>
          if Name run = []
          then (Inr (Some (NewInvalidInputError
                  ''The run name is empty. Please specify a valid name.'')), s)
          else
            (case invoke Call_ValidatePipelineSpec (ValidatePipelineSpec env (PipelineSpec run)) s of
               (Some err, s1) \<Rightarrow>
                 (case invoke Call_CheckPipelineVersionReference
                         (CheckPipelineVersionReference env (ResourceReferences run)) s1 of
                    (Inl errResourceReference, s2) \<Rightarrow>
                      (Inr (Some (Wrap err
                         (''Neither pipeline spec nor pipeline version is valid. ''
                            @ message errResourceReference))), s2)
                  | (Inr _, s2) \<Rightarrow> (Inr None, s2))
             | (None, s1) \<Rightarrow> (Inr None, s1)))"

definition CreateRun ::
  "('w, 'ctx, 'opts, 'md, 'ad, 'mr, 'spec, 'ref, 'v, 'key) env \<Rightarrow> 'ctx \<Rightarrow>
   ('spec, 'ref) CreateRunRequest \<Rightarrow>
   ('w, 'ctx, 'v) state \<Rightarrow> (fault + error + 'ad) \<times> ('w, 'ctx, 'v) state" where
  "CreateRun env ctx request s =
     (case validateCreateRunRequest env request s of
        (Inl f, s1) \<Rightarrow> (Inl f, s1)
      | (Inr (Some err), s1) \<Rightarrow> (Inr (Inl (Wrap err ''Validate create run request failed.'')), s1)
      | (Inr None, s1) \<Rightarrow>
          (case Run request of
             None \<Rightarrow> (Inl NilPointerDereference, s1)
           | Some run \<Rightarrow>
               (case CanAccessExperimentInResourceReferences env ctx (ResourceReferences run) s1 of
                  (Some err, s2) \<Rightarrow> (Inr (Inl (Wrap err ''Failed to authorize the request.'')), s2)
                | (None, s2) \<Rightarrow>
                    (case invoke RM_CreateRun (rm_CreateRun env run) s2 of
                       (Inl err, s3) \<Rightarrow> (Inr (Inl (Wrap err ''Failed to create a new run.'')), s3)
                     | (Inr created, s3) \<Rightarrow> (Inr (Inr (ToApiRunDetail env created)), s3)))))"

definition GetRun ::
  "('w, 'ctx, 'opts, 'md, 'ad, 'mr, 'spec, 'ref, 'v, 'key) env \<Rightarrow> 'ctx \<Rightarrow> string \<Rightarrow>
   ('w, 'ctx, 'v) state \<Rightarrow> (error + 'ad) \<times> ('w, 'ctx, 'v) state" where
  "GetRun env ctx runId s =
     (case canAccessRun env ctx runId s of
        (Some err, s1) \<Rightarrow> (Inl (Wrap err ''Failed to authorize the request.''), s1)
      | (None, s1) \<Rightarrow>
          (case invoke (RM_GetRun runId) (rm_GetRun env runId) s1 of
             (Inl err, s2) \<Rightarrow> (Inl err, s2)
           | (Inr run, s2) \<Rightarrow> (Inr (ToApiRunDetail env run), s2)))"

text \<open>
  ArchiveRun, UnarchiveRun, DeleteRun, TerminateRun and RetryRun have one body: authorize by
  the run id, then delegate the one engine call and return its error unwrapped.
\<close>

definition authorizedRunCall ::
  "('w, 'ctx, 'opts, 'md, 'ad, 'mr, 'spec, 'ref, 'v, 'key) env \<Rightarrow> 'ctx \<Rightarrow> string \<Rightarrow>
   ('ctx, 'v) call \<Rightarrow> ('w \<Rightarrow> error option \<times> 'w) \<Rightarrow>
   ('w, 'ctx, 'v) state \<Rightarrow> (error + unit) \<times> ('w, 'ctx, 'v) state" where
  "authorizedRunCall env ctx runId c f s =
     (case canAccessRun env ctx runId s of
        (Some err, s1) \<Rightarrow> (Inl (Wrap err ''Failed to authorize the request.''), s1)
      | (None, s1) \<Rightarrow>
          (case invoke c f s1 of
             (Some err, s2) \<Rightarrow> (Inl err, s2)
           | (None, s2) \<Rightarrow> (Inr (), s2)))"

definition ArchiveRun ::
  "('w, 'ctx, 'opts, 'md, 'ad, 'mr, 'spec, 'ref, 'v, 'key) env \<Rightarrow> 'ctx \<Rightarrow> string \<Rightarrow>
   ('w, 'ctx, 'v) state \<Rightarrow> (error + unit) \<times> ('w, 'ctx, 'v) state" where
  "ArchiveRun env ctx runId s =
     authorizedRunCall env ctx runId (RM_ArchiveRun runId) (rm_ArchiveRun env runId) s"

definition UnarchiveRun ::
  "('w, 'ctx, 'opts, 'md, 'ad, 'mr, 'spec, 'ref, 'v, 'key) env \<Rightarrow> 'ctx \<Rightarrow> string \<Rightarrow>
   ('w, 'ctx, 'v) state \<Rightarrow> (error + unit) \<times> ('w, 'ctx, 'v) state" where
  "UnarchiveRun env ctx runId s =
     authorizedRunCall env ctx runId (RM_UnarchiveRun runId) (rm_UnarchiveRun env runId) s"

definition DeleteRun ::
  "('w, 'ctx, 'opts, 'md, 'ad, 'mr, 'spec, 'ref, 'v, 'key) env \<Rightarrow> 'ctx \<Rightarrow> string \<Rightarrow>
   ('w, 'ctx, 'v) state \<Rightarrow> (error + unit) \<times> ('w, 'ctx, 'v) state" where
  "DeleteRun env ctx runId s =
     authorizedRunCall env ctx runId (RM_DeleteRun runId) (rm_DeleteRun env runId) s"

definition TerminateRun ::
  "('w, 'ctx, 'opts, 'md, 'ad, 'mr, 'spec, 'ref, 'v, 'key) env \<Rightarrow> 'ctx \<Rightarrow> string \<Rightarrow>
   ('w, 'ctx, 'v) state \<Rightarrow> (error + unit) \<times> ('w, 'ctx, 'v) state" where
  "TerminateRun env ctx runId s =
     authorizedRunCall env ctx runId (RM_TerminateRun runId) (rm_TerminateRun env runId) s"

definition RetryRun ::
  "('w, 'ctx, 'opts, 'md, 'ad, 'mr, 'spec, 'ref, 'v, 'key) env \<Rightarrow> 'ctx \<Rightarrow> string \<Rightarrow>
   ('w, 'ctx, 'v) state \<Rightarrow> (error + unit) \<times> ('w, 'ctx, 'v) state" where
  "RetryRun env ctx runId s =
     authorizedRunCall env ctx runId (RM_RetryRun runId) (rm_RetryRun env runId) s"

text \<open>
  The multi-user block of ListRuns (the body of the test of IsMultiUserMode): the checks on
  the reference key of the filter context, and the authorization they lead to.
\<close>

definition ListRuns_authorize ::
  "('w, 'ctx, 'opts, 'md, 'ad, 'mr, 'spec, 'ref, 'v, 'key) env \<Rightarrow> 'ctx \<Rightarrow> 'key ListRunsRequest \<Rightarrow>
   FilterContext \<Rightarrow> ('w, 'ctx, 'v) state \<Rightarrow> error option \<times> ('w, 'ctx, 'v) state" where
  "ListRuns_authorize env ctx request filterContext s =
     (case ReferenceKey filterContext of
        None \<Rightarrow> (Some (NewInvalidInputError
                   ''ListRuns must filter by resource reference in multi-user mode.''), s)
      | Some refKey \<Rightarrow>
          if Type refKey = common_Namespace then
            (let namespace = ID refKey in
             if length namespace = 0
             then (Some (NewInvalidInputError
                     ''Invalid resource references for ListRuns. Namespace is empty.''), s)
             else
               (case invoke (Call_isAuthorized ctx namespace) (isAuthorized env ctx namespace) s of
                  (Some err, s1) \<Rightarrow>
                    (Some (Wrap err ''Failed to authorize with namespace resource reference.''), s1)
                | (None, s1) \<Rightarrow> (None, s1)))
          else if Type refKey = common_Experiment \<or> Type refKey = ''ExperimentUUID'' then
            (let experimentID = ID refKey in
             if length experimentID = 0
             then (Some (NewInvalidInputError
                     ''Invalid resource references for run. Experiment ID is empty.''), s)
             else
               (case invoke (Call_CanAccessExperiment ctx experimentID)
                       (CanAccessExperiment env ctx experimentID) s of
                  (Some err, s1) \<Rightarrow>
                    (Some (Wrap err ''Failed to authorize with experiment resource reference.''), s1)
                | (None, s1) \<Rightarrow> (None, s1)))
          else
            (Some (NewInvalidInputError
               (''Invalid resource references for ListRuns. Got ''
                  @ fmtResourceKey env (ResourceReferenceKey request))), s))"

definition ListRuns ::
  "('w, 'ctx, 'opts, 'md, 'ad, 'mr, 'spec, 'ref, 'v, 'key) env \<Rightarrow> 'ctx \<Rightarrow> 'key ListRunsRequest \<Rightarrow>
   ('w, 'ctx, 'v) state \<Rightarrow> (error + ('spec, 'ref) ListRunsResponse) \<times> ('w, 'ctx, 'v) state" where
  "ListRuns env ctx request s =
     (case validatedListOptions env (PageToken request) (scast (PageSize request))
             (SortBy request) (Filter request) of
        Inl err \<Rightarrow> (Inl (Wrap err ''Failed to create list options''), s)
      | Inr opts \<Rightarrow>
          (case ValidateFilter env (ResourceReferenceKey request) of
             Inl err \<Rightarrow> (Inl (Wrap err ''Validating filter failed.''), s)
           | Inr filterContext \<Rightarrow>
               (case (if IsMultiUserMode env then ListRuns_authorize env ctx request filterContext s
                      else (None, s)) of
                  (Some err, s1) \<Rightarrow> (Inl err, s1)
                | (None, s1) \<Rightarrow>
                    (case invoke RM_ListRuns (rm_ListRuns env filterContext opts) s1 of
                       (Inl err, s2) \<Rightarrow> (Inl (Wrap err ''Failed to list runs.''), s2)
                     | (Inr (runs, total_size, nextPageToken), s2) \<Rightarrow>
                         (Inr \<lparr>Runs = ToApiRuns env runs, TotalSize = ucast total_size,
                               NextPageToken = nextPageToken\<rparr>, s2)))))"

text \<open>
  The body of the loop of ReportRunMetrics computes the error of one metric: the metric is
  validated, and reported to the resource manager only when the validation raised no error.
\<close>

definition reportItem ::
  "('w, 'ctx, 'opts, 'md, 'ad, 'mr, 'spec, 'ref, 'v, 'key) env \<Rightarrow> string \<Rightarrow> 'v RunMetric \<Rightarrow>
   ('w, 'ctx, 'v) state \<Rightarrow> error option \<times> ('w, 'ctx, 'v) state" where
  "reportItem env runId metric s =
     (case ValidateRunMetric env metric of
        None \<Rightarrow> invoke (RM_ReportMetric metric runId) (rm_ReportMetric env metric runId) s
      | Some err \<Rightarrow> (Some err, s))"

text \<open>
  The loop over the metrics of the request: the result of each metric is appended to the
  results of the response.
\<close>

fun reportLoop ::
  "('w, 'ctx, 'opts, 'md, 'ad, 'mr, 'spec, 'ref, 'v, 'key) env \<Rightarrow> string \<Rightarrow> 'v RunMetric list \<Rightarrow>
   MetricResult list \<Rightarrow> ('w, 'ctx, 'v) state \<Rightarrow> MetricResult list \<times> ('w, 'ctx, 'v) state" where
  "reportLoop env runId [] results s = (results, s)"
| "reportLoop env runId (metric # rest) results s =
     (case reportItem env runId metric s of
        (err, s1) \<Rightarrow>
          reportLoop env runId rest
            (results @ [NewReportRunMetricResult (Metric_Name metric) (Metric_NodeId metric) err]) s1)"

definition ReportRunMetrics ::
  "('w, 'ctx, 'opts, 'md, 'ad, 'mr, 'spec, 'ref, 'v, 'key) env \<Rightarrow> 'ctx \<Rightarrow>
   'v ReportRunMetricsRequest \<Rightarrow>
   ('w, 'ctx, 'v) state \<Rightarrow> (error + ReportRunMetricsResponse) \<times> ('w, 'ctx, 'v) state" where
  "ReportRunMetrics env ctx request s =
     (case invoke (RM_GetRun (RunId request)) (rm_GetRun env (RunId request)) s of
        (Inl err, s1) \<Rightarrow> (Inl err, s1)
      | (Inr _, s1) \<Rightarrow>
          (case reportLoop env (RunId request) (Metrics request) [] s1 of
             (results, s2) \<Rightarrow> (Inr \<lparr>Results = results\<rparr>, s2)))"

definition ReadArtifact ::
  "('w, 'ctx, 'opts, 'md, 'ad, 'mr, 'spec, 'ref, 'v, 'key) env \<Rightarrow> 'ctx \<Rightarrow> ReadArtifactRequest \<Rightarrow>
   ('w, 'ctx, 'v) state \<Rightarrow> (error + 8 word list) \<times> ('w, 'ctx, 'v) state" where
  "ReadArtifact env ctx request s =
     (case invoke (RM_ReadArtifact (Artifact_RunId request) (Artifact_NodeId request)
                     (ArtifactName request))
             (rm_ReadArtifact env (Artifact_RunId request) (Artifact_NodeId request)
                (ArtifactName request)) s of
        (Inl err, s1) \<Rightarrow>
          (Inl (Wrap err (''failed to read artifact '' @ [CHR 0x27]
                            @ fmtReadArtifactRequest env request @ [CHR 0x27] @ ''.'')), s1)
      | (Inr content, s1) \<Rightarrow> (Inr content, s1))"

subsection \<open>The batch of metrics in the spec's words\<close>

text \<open>
  A second definition, written from the spec's words on the batch and not from the loop of
  the source, to compare the loop with: each item is validated, and a valid item is
  persisted via the engine. This is the state of the engine after the metrics of a list
  have been handled in order, from the collaborators alone.
\<close>

fun spec_engineAfter ::
  "('w, 'ctx, 'opts, 'md, 'ad, 'mr, 'spec, 'ref, 'v, 'key) env \<Rightarrow> string \<Rightarrow> 'v RunMetric list \<Rightarrow>
   'w \<Rightarrow> 'w" where
  "spec_engineAfter env runId [] w = w"
| "spec_engineAfter env runId (metric # rest) w =
     spec_engineAfter env runId rest
       (case ValidateRunMetric env metric of
          None \<Rightarrow> snd (rm_ReportMetric env metric runId w)
        | Some err \<Rightarrow> w)"

subsection \<open>A sample deployment\<close>

text \<open>
  A small engine on which the theorems are exercised. The state of the engine is the list
  of the metrics reported so far, as pairs of run id and metric name. The engine knows the
  run run1 of the namespace ns1 and the run orphan, which has an empty namespace. The
  authorizer admits the caller alice. A metric is valid when its name is not empty; the
  engine refuses a metric that was reported before. A pipeline spec is the id of a
  pipeline: the empty id is invalid input, and the id missing is a pipeline that does not
  exist.
\<close>

type_synonym sample_env =
  "((string \<times> string) list, string, string, string, string, string, string, string, int,
    ReferenceKey) env"

type_synonym sample_state = "((string \<times> string) list, string, int) state"

definition sample_authorizer :: "string \<Rightarrow> error option" where
  "sample_authorizer ctx =
     (if ctx = ''alice'' then None else Some (Error AuthorizationDenied ''Unauthorized access''))"

definition sample_env :: "bool \<Rightarrow> sample_env" where
  "sample_env multi =
     \<lparr>IsMultiUserMode = multi,
      validatedListOptions = (\<lambda>pageToken pageSize sortBy filter.
         if sortBy = [] \<or> sortBy = ''name'' then Inr sortBy
         else Inl (NewInvalidInputError ''Invalid sorting field'')),
      ValidateFilter = (\<lambda>key.
         case key of
           None \<Rightarrow> Inr \<lparr>ReferenceKey = None\<rparr>
         | Some k \<Rightarrow>
             if Type k = ''Unrecognized''
             then Inl (NewInvalidInputError ''Unrecognized resource reference type.'')
             else Inr \<lparr>ReferenceKey = Some k\<rparr>),
      ValidateRunMetric = (\<lambda>m.
         if Metric_Name m = [] then Some (NewInvalidInputError ''Metric name is empty'')
         else None),
      ValidatePipelineSpec = (\<lambda>spec w.
         (if spec = [] then Some (NewInvalidInputError ''Please specify a pipeline'')
          else if spec = ''missing'' then Some (Error NotFound ''Get pipelineId failed.'')
          else None, w)),
      CheckPipelineVersionReference = (\<lambda>refs w.
         (case refs of
            [] \<Rightarrow> Inl (NewInvalidInputError ''No pipeline version'')
          | r # _ \<Rightarrow> Inr r, w)),
      authorizeReferences = (\<lambda>ctx refs w. (sample_authorizer ctx, w)),
      CanAccessExperiment = (\<lambda>ctx experimentID w. (sample_authorizer ctx, w)),
      isAuthorized = (\<lambda>ctx namespace w. (sample_authorizer ctx, w)),
      ToApiRunDetail = (\<lambda>run. run),
      ToApiRuns = map (\<lambda>r. \<lparr>Name = r, PipelineSpec = [], ResourceReferences = []\<rparr>),
      fmtResourceKey = (\<lambda>key. case key of None \<Rightarrow> ''nil'' | Some k \<Rightarrow> Type k @ '' '' @ ID k),
      fmtReadArtifactRequest = Artifact_RunId,
      rm_CreateRun = (\<lambda>run w. (Inr (Name run), w)),
      rm_GetRun = (\<lambda>runId w.
         (if runId = ''run1'' \<or> runId = ''orphan'' then Inr runId
          else Inl (Error NotFound ''Run not found''), w)),
      rm_ListRuns = (\<lambda>filterContext opts w. (Inr ([''run1''], 1, []), w)),
      rm_ArchiveRun = (\<lambda>runId w. (None, w)),
      rm_UnarchiveRun = (\<lambda>runId w. (None, w)),
      rm_DeleteRun = (\<lambda>runId w. (None, w)),
      rm_ReportMetric = (\<lambda>m runId w.
         if (runId, Metric_Name m) \<in> set w
         then (Some (Error InternalError ''Metric was reported before''), w)
         else (None, w @ [(runId, Metric_Name m)])),
      rm_ReadArtifact = (\<lambda>runId nodeId artifactName w. (Inr [], w)),
      rm_TerminateRun = (\<lambda>runId w. (None, w)),
      rm_RetryRun = (\<lambda>runId w. (None, w)),
      rm_GetNamespaceFromRunID = (\<lambda>runId w.
         (if runId = ''run1'' then Inr ''ns1''
          else if runId = ''orphan'' then Inr []
          else Inl (Error NotFound ''Run not found''), w))\<rparr>"

definition sample_state :: sample_state where
  "sample_state = \<lparr>world = [], trace = []\<rparr>"

definition sample_metric :: "string \<Rightarrow> int RunMetric" where
  "sample_metric name = \<lparr>Metric_Name = name, Metric_NodeId = ''node1'', Metric_Value = 1\<rparr>"

section \<open>Properties\<close>

subsection \<open>Calls and the loop over the metrics\<close>

lemma invoke_eq: "invoke c f s = (fst (f (world s)), \<lparr>world = snd (f (world s)), trace = trace s @ [c]\<rparr>)"
  by (simp add: invoke_def split: prod.splits)

lemma reportItem_trace:
  "trace (snd (reportItem env runId m s)) =
     trace s @ (if ValidateRunMetric env m = None then [RM_ReportMetric m runId] else [])"
  by (simp add: reportItem_def invoke_eq split: option.splits)

lemma reportLoop_acc:
  "reportLoop env runId ms acc s =
     (acc @ fst (reportLoop env runId ms [] s), snd (reportLoop env runId ms [] s))"
proof (induction ms arbitrary: acc s)
  case Nil
  show ?case by simp
next
  case (Cons m ms)
  obtain err s1 where step: "reportItem env runId m s = (err, s1)"
    by (cases "reportItem env runId m s")
  let ?r = "NewReportRunMetricResult (Metric_Name m) (Metric_NodeId m) err"
  have "reportLoop env runId ms (acc @ [?r]) s1 =
          ((acc @ [?r]) @ fst (reportLoop env runId ms [] s1), snd (reportLoop env runId ms [] s1))"
    by (rule Cons.IH)
  moreover have "reportLoop env runId ms [?r] s1 =
          ([?r] @ fst (reportLoop env runId ms [] s1), snd (reportLoop env runId ms [] s1))"
    by (rule Cons.IH)
  ultimately show ?case using step by simp
qed

lemma reportLoop_append:
  "reportLoop env runId (xs @ ys) acc s =
     (case reportLoop env runId xs acc s of (r, s1) \<Rightarrow> reportLoop env runId ys r s1)"
  by (induction xs arbitrary: acc s) (auto split: prod.splits)

lemma reportLoop_length:
  "length (fst (reportLoop env runId ms acc s)) = length acc + length ms"
  by (induction ms arbitrary: acc s) (auto split: prod.splits)

lemma reportLoop_names:
  "map MetricName (fst (reportLoop env runId ms acc s)) = map MetricName acc @ map Metric_Name ms"
  by (induction ms arbitrary: acc s) (auto split: prod.splits simp: NewReportRunMetricResult_def)

lemma reportLoop_nodes:
  "map MetricNodeId (fst (reportLoop env runId ms acc s)) = map MetricNodeId acc @ map Metric_NodeId ms"
  by (induction ms arbitrary: acc s) (auto split: prod.splits simp: NewReportRunMetricResult_def)

lemma reportLoop_trace:
  "trace (snd (reportLoop env runId ms acc s)) =
     trace s @ map (\<lambda>m. RM_ReportMetric m runId) (filter (\<lambda>m. ValidateRunMetric env m = None) ms)"
proof (induction ms arbitrary: acc s)
  case Nil
  show ?case by simp
next
  case (Cons m ms)
  obtain err s1 where step: "reportItem env runId m s = (err, s1)"
    by (cases "reportItem env runId m s")
  have "trace s1 = trace s @ (if ValidateRunMetric env m = None then [RM_ReportMetric m runId] else [])"
    using reportItem_trace [of env runId m s] step by simp
  then show ?case using step Cons.IH by simp
qed

lemma reportLoop_nth:
  assumes "i < length ms"
  shows "fst (reportLoop env runId ms [] s) ! i =
     NewReportRunMetricResult (Metric_Name (ms ! i)) (Metric_NodeId (ms ! i))
       (fst (reportItem env runId (ms ! i) (snd (reportLoop env runId (take i ms) [] s))))"
proof -
  let ?pre = "reportLoop env runId (take i ms) [] s"
  have split: "ms = take i ms @ (ms ! i) # drop (Suc i) ms"
    using assms by (simp add: id_take_nth_drop)
  obtain err s1 where step: "reportItem env runId (ms ! i) (snd ?pre) = (err, s1)"
    by (cases "reportItem env runId (ms ! i) (snd ?pre)")
  let ?r = "NewReportRunMetricResult (Metric_Name (ms ! i)) (Metric_NodeId (ms ! i)) err"
  have "reportLoop env runId ms [] s =
          reportLoop env runId ((ms ! i) # drop (Suc i) ms) (fst ?pre) (snd ?pre)"
    using reportLoop_append [of env runId "take i ms" "(ms ! i) # drop (Suc i) ms" "[]" s] split
    by (simp add: case_prod_unfold)
  also have "\<dots> = reportLoop env runId (drop (Suc i) ms) (fst ?pre @ [?r]) s1"
    using step by simp
  also have "\<dots> = ((fst ?pre @ [?r]) @ fst (reportLoop env runId (drop (Suc i) ms) [] s1),
                     snd (reportLoop env runId (drop (Suc i) ms) [] s1))"
    by (rule reportLoop_acc)
  finally have "fst (reportLoop env runId ms [] s) =
       fst ?pre @ ?r # fst (reportLoop env runId (drop (Suc i) ms) [] s1)"
    by simp
  moreover have "length (fst ?pre) = i"
    using assms by (simp add: reportLoop_length)
  ultimately show ?thesis using step by (simp add: nth_append)
qed

lemma reportItem_verdict:
  "fst (reportItem env runId m s) =
     (case ValidateRunMetric env m of
        Some err \<Rightarrow> Some err
      | None \<Rightarrow> fst (rm_ReportMetric env m runId (world s)))"
  by (simp add: reportItem_def invoke_eq split: option.splits)

lemma reportItem_world:
  "world (snd (reportItem env runId m s)) =
     (case ValidateRunMetric env m of
        None \<Rightarrow> snd (rm_ReportMetric env m runId (world s))
      | Some err \<Rightarrow> world s)"
  by (simp add: reportItem_def invoke_eq split: option.splits)

lemma reportLoop_world:
  "world (snd (reportLoop env runId ms acc s)) = spec_engineAfter env runId ms (world s)"
proof (induction ms arbitrary: acc s)
  case Nil
  show ?case by simp
next
  case (Cons m ms)
  obtain err s1 where step: "reportItem env runId m s = (err, s1)"
    by (cases "reportItem env runId m s")
  have "world s1 =
     (case ValidateRunMetric env m of
        None \<Rightarrow> snd (rm_ReportMetric env m runId (world s))
      | Some err \<Rightarrow> world s)"
    using reportItem_world [of env runId m s] step by simp
  then show ?case using step Cons.IH by simp
qed

lemma reportLoop_slot:
  assumes "i < length ms"
  shows "fst (reportLoop env runId ms [] s) ! i =
     NewReportRunMetricResult (Metric_Name (ms ! i)) (Metric_NodeId (ms ! i))
       (case ValidateRunMetric env (ms ! i) of
          Some err \<Rightarrow> Some err
        | None \<Rightarrow>
            fst (rm_ReportMetric env (ms ! i) runId
                   (spec_engineAfter env runId (take i ms) (world s))))"
  by (simp only: reportLoop_nth [OF assms] reportItem_verdict reportLoop_world)

subsection \<open>ReportRunMetrics\<close>

lemma ReportRunMetrics_found:
  assumes "fst (rm_GetRun env (RunId request) (world s)) = Inr run"
  shows "ReportRunMetrics env ctx request s =
     (Inr \<lparr>Results = fst (reportLoop env (RunId request) (Metrics request) []
                (snd (invoke (RM_GetRun (RunId request)) (rm_GetRun env (RunId request)) s)))\<rparr>,
      snd (reportLoop env (RunId request) (Metrics request) []
                (snd (invoke (RM_GetRun (RunId request)) (rm_GetRun env (RunId request)) s))))"
  using assms by (simp add: ReportRunMetrics_def invoke_eq split: prod.splits)

lemma ReportRunMetrics_not_found:
  assumes "fst (rm_GetRun env (RunId request) (world s)) = Inl err"
  shows "ReportRunMetrics env ctx request s =
     (Inl err, \<lparr>world = snd (rm_GetRun env (RunId request) (world s)),
                trace = trace s @ [RM_GetRun (RunId request)]\<rparr>)"
  using assms by (simp add: ReportRunMetrics_def invoke_eq)

text \<open>
  Claim C1. When the engine's GetRun succeeds on the run id of the request,
  ReportRunMetrics returns a response and no error, whatever the metrics are. The response
  has one result for each metric of the request (none for an empty list), and the results
  are in the order of the metrics: the names and the node ids of the results are the names
  and the node ids of the metrics, position by position.
\<close>

theorem ReportRunMetrics_one_result_per_item:
  assumes "fst (rm_GetRun env (RunId request) (world s)) = Inr run"
  shows "case fst (ReportRunMetrics env ctx request s) of
           Inl err \<Rightarrow> False
         | Inr response \<Rightarrow>
             length (Results response) = length (Metrics request)
             \<and> map MetricName (Results response) = map Metric_Name (Metrics request)
             \<and> map MetricNodeId (Results response) = map Metric_NodeId (Metrics request)"
  using assms
  by (simp add: ReportRunMetrics_found [OF assms] reportLoop_length reportLoop_names reportLoop_nodes)

theorem ReportRunMetrics_one_result_per_item_witness:
  "fst (rm_GetRun (sample_env True) ''run1'' (world sample_state)) = Inr ''run1''
   \<and> (case fst (ReportRunMetrics (sample_env True) ''bob''
                  \<lparr>RunId = ''run1'',
                   Metrics = [sample_metric ''accuracy'', sample_metric [], sample_metric ''loss'']\<rparr>
                  sample_state) of
         Inl err \<Rightarrow> False
       | Inr response \<Rightarrow>
           length (Results response) = 3
           \<and> map MetricName (Results response) = [''accuracy'', [], ''loss'']
           \<and> map MetricNodeId (Results response) = [''node1'', ''node1'', ''node1''])"
proof -
  have h: "fst (rm_GetRun (sample_env True)
                  (RunId \<lparr>RunId = ''run1'',
                   Metrics = [sample_metric ''accuracy'', sample_metric [], sample_metric ''loss'']\<rparr>)
                  (world sample_state)) = Inr ''run1''"
    by (simp add: sample_env_def)
  show ?thesis
    using h ReportRunMetrics_one_result_per_item [OF h, of "''bob''"]
    by (simp add: sample_metric_def split: sum.splits)
qed

text \<open>
  Claim C2, as amended. On an existing run every metric is handled on its own. The calls
  that ReportRunMetrics makes to the engine after GetRun are the reports of exactly the
  metrics that pass validation, in input order: a metric that fails validation is never
  forwarded, and no failure of an earlier metric, in validation or in the engine, keeps a
  later metric from being validated and forwarded. The engine ends in the state that the
  valid metrics, reported in order, leave it in. The result in slot i is made from metric
  i alone: it is the error of the validation of metric i when the validation fails, and
  otherwise the answer of the engine to the report of metric i, at the state the valid
  metrics before it have left; so the outcome of the slot is Failed with the validation
  error, Failed with the engine's error, or Ok, and a failure shows in the slot of the
  failing metric only. In particular a list of a valid metric, an invalid metric and a
  valid metric has the outcomes Ok, Failed, Ok when the engine accepts both valid metrics.
\<close>

theorem ReportRunMetrics_items_independent:
  assumes "fst (rm_GetRun env (RunId request) (world s)) = Inr run"
  shows "case fst (ReportRunMetrics env ctx request s) of
           Inl err \<Rightarrow> False
         | Inr response \<Rightarrow>
             trace (snd (ReportRunMetrics env ctx request s)) =
               trace s @ RM_GetRun (RunId request) #
                 map (\<lambda>m. RM_ReportMetric m (RunId request))
                   (filter (\<lambda>m. ValidateRunMetric env m = None) (Metrics request))
             \<and> world (snd (ReportRunMetrics env ctx request s)) =
                 spec_engineAfter env (RunId request) (Metrics request)
                   (snd (rm_GetRun env (RunId request) (world s)))
             \<and> (\<forall>i < length (Metrics request).
                   Results response ! i =
                     NewReportRunMetricResult (Metric_Name (Metrics request ! i))
                       (Metric_NodeId (Metrics request ! i))
                       (case ValidateRunMetric env (Metrics request ! i) of
                          Some err \<Rightarrow> Some err
                        | None \<Rightarrow>
                            fst (rm_ReportMetric env (Metrics request ! i) (RunId request)
                                   (spec_engineAfter env (RunId request)
                                      (take i (Metrics request))
                                      (snd (rm_GetRun env (RunId request) (world s)))))))
             \<and> (\<forall>i < length (Metrics request).
                   Outcome (Results response ! i) =
                     (case ValidateRunMetric env (Metrics request ! i) of
                        Some err \<Rightarrow> Failed err
                      | None \<Rightarrow>
                          (case fst (rm_ReportMetric env (Metrics request ! i) (RunId request)
                                       (spec_engineAfter env (RunId request)
                                          (take i (Metrics request))
                                          (snd (rm_GetRun env (RunId request) (world s))))) of
                             None \<Rightarrow> Ok
                           | Some err \<Rightarrow> Failed err)))
             \<and> (\<forall>a b c e.
                   Metrics request = [a, b, c]
                   \<and> ValidateRunMetric env a = None
                   \<and> ValidateRunMetric env b = Some e
                   \<and> ValidateRunMetric env c = None
                   \<and> fst (rm_ReportMetric env a (RunId request)
                            (snd (rm_GetRun env (RunId request) (world s)))) = None
                   \<and> fst (rm_ReportMetric env c (RunId request)
                            (snd (rm_ReportMetric env a (RunId request)
                               (snd (rm_GetRun env (RunId request) (world s)))))) = None
                   \<longrightarrow> map Outcome (Results response) = [Ok, Failed e, Ok])"
proof -
  let ?s1 = "snd (invoke (RM_GetRun (RunId request)) (rm_GetRun env (RunId request)) s)"
  let ?w1 = "snd (rm_GetRun env (RunId request) (world s))"
  let ?rs = "fst (reportLoop env (RunId request) (Metrics request) [] ?s1)"
  have w1: "world ?s1 = ?w1"
    by (simp add: invoke_eq)
  have run: "ReportRunMetrics env ctx request s =
      (Inr \<lparr>Results = ?rs\<rparr>, snd (reportLoop env (RunId request) (Metrics request) [] ?s1))"
    by (rule ReportRunMetrics_found [OF assms])
  have t: "trace (snd (ReportRunMetrics env ctx request s)) =
               trace s @ RM_GetRun (RunId request) #
                 map (\<lambda>m. RM_ReportMetric m (RunId request))
                   (filter (\<lambda>m. ValidateRunMetric env m = None) (Metrics request))"
    by (simp add: run reportLoop_trace invoke_eq)
  have w: "world (snd (ReportRunMetrics env ctx request s)) =
             spec_engineAfter env (RunId request) (Metrics request) ?w1"
    by (simp add: run reportLoop_world w1)
  have slots: "\<forall>i < length (Metrics request).
      ?rs ! i = NewReportRunMetricResult (Metric_Name (Metrics request ! i))
                  (Metric_NodeId (Metrics request ! i))
                  (case ValidateRunMetric env (Metrics request ! i) of
                     Some err \<Rightarrow> Some err
                   | None \<Rightarrow>
                       fst (rm_ReportMetric env (Metrics request ! i) (RunId request)
                              (spec_engineAfter env (RunId request)
                                 (take i (Metrics request)) ?w1)))"
    using reportLoop_slot [of _ "Metrics request" env "RunId request" ?s1]
    by (simp only: w1) blast
  have outcomes: "\<forall>i < length (Metrics request).
      Outcome (?rs ! i) =
        (case ValidateRunMetric env (Metrics request ! i) of
           Some err \<Rightarrow> Failed err
         | None \<Rightarrow>
             (case fst (rm_ReportMetric env (Metrics request ! i) (RunId request)
                          (spec_engineAfter env (RunId request)
                             (take i (Metrics request)) ?w1)) of
                None \<Rightarrow> Ok
              | Some err \<Rightarrow> Failed err))"
    using slots by (simp add: NewReportRunMetricResult_def split: option.splits)
  have three: "map Outcome ?rs = [Ok, Failed e, Ok]"
    if "Metrics request = [a, b, c]" "ValidateRunMetric env a = None"
       "ValidateRunMetric env b = Some e" "ValidateRunMetric env c = None"
       "fst (rm_ReportMetric env a (RunId request) ?w1) = None"
       "fst (rm_ReportMetric env c (RunId request)
               (snd (rm_ReportMetric env a (RunId request) ?w1))) = None"
    for a b c e
    using that
    by (simp add: reportItem_def invoke_eq NewReportRunMetricResult_def split: prod.splits)
  show ?thesis
    using t w slots outcomes three by (simp add: run)
qed

theorem ReportRunMetrics_items_independent_witness:
  "fst (rm_GetRun (sample_env True) ''run1'' (world sample_state)) = Inr ''run1''
   \<and> ValidateRunMetric (sample_env True) (sample_metric ''accuracy'') = None
   \<and> ValidateRunMetric (sample_env True) (sample_metric []) =
       Some (NewInvalidInputError ''Metric name is empty'')
   \<and> ValidateRunMetric (sample_env True) (sample_metric ''loss'') = None
   \<and> fst (rm_ReportMetric (sample_env True) (sample_metric ''accuracy'') ''run1'' []) = None
   \<and> fst (rm_ReportMetric (sample_env True) (sample_metric ''loss'') ''run1''
            [(''run1'', ''accuracy'')]) = None
   \<and> (case fst (ReportRunMetrics (sample_env True) ''bob''
                  \<lparr>RunId = ''run1'',
                   Metrics = [sample_metric ''accuracy'', sample_metric [], sample_metric ''loss'']\<rparr>
                  sample_state) of
         Inl err \<Rightarrow> False
       | Inr response \<Rightarrow>
           map Outcome (Results response) =
             [Ok, Failed (NewInvalidInputError ''Metric name is empty''), Ok])
   \<and> trace (snd (ReportRunMetrics (sample_env True) ''bob''
                  \<lparr>RunId = ''run1'',
                   Metrics = [sample_metric ''accuracy'', sample_metric [], sample_metric ''loss'']\<rparr>
                  sample_state)) =
       [RM_GetRun ''run1'', RM_ReportMetric (sample_metric ''accuracy'') ''run1'',
        RM_ReportMetric (sample_metric ''loss'') ''run1'']
   \<and> world (snd (ReportRunMetrics (sample_env True) ''bob''
                  \<lparr>RunId = ''run1'',
                   Metrics = [sample_metric ''accuracy'', sample_metric [], sample_metric ''loss'']\<rparr>
                  sample_state)) =
       [(''run1'', ''accuracy''), (''run1'', ''loss'')]
   \<and> (case fst (ReportRunMetrics (sample_env True) ''bob''
                  \<lparr>RunId = ''run1'',
                   Metrics = [sample_metric ''accuracy'', sample_metric ''accuracy'']\<rparr>
                  sample_state) of
         Inl err \<Rightarrow> False
       | Inr response \<Rightarrow>
           Outcome (Results response ! 0) = Ok
           \<and> Outcome (Results response ! 1) =
               Failed (Error InternalError ''Metric was reported before''))"
proof -
  let ?req = "\<lparr>RunId = ''run1'',
                Metrics = [sample_metric ''accuracy'', sample_metric [], sample_metric ''loss'']\<rparr>"
  let ?dup = "\<lparr>RunId = ''run1'',
                Metrics = [sample_metric ''accuracy'', sample_metric ''accuracy'']\<rparr>"
  have h: "fst (rm_GetRun (sample_env True) (RunId ?req) (world sample_state)) = Inr ''run1''"
    by (simp add: sample_env_def)
  have h': "fst (rm_GetRun (sample_env True) (RunId ?dup) (world sample_state)) = Inr ''run1''"
    by (simp add: sample_env_def)
  have g: "snd (rm_GetRun (sample_env True) ''run1'' (world sample_state)) = []"
    by (simp add: sample_env_def sample_state_def)
  have v: "ValidateRunMetric (sample_env True) (sample_metric ''accuracy'') = None"
      "ValidateRunMetric (sample_env True) (sample_metric []) =
         Some (NewInvalidInputError ''Metric name is empty'')"
      "ValidateRunMetric (sample_env True) (sample_metric ''loss'') = None"
    by (simp_all add: sample_env_def sample_metric_def)
  have e: "rm_ReportMetric (sample_env True) (sample_metric ''accuracy'') ''run1'' [] =
             (None, [(''run1'', ''accuracy'')])"
      "rm_ReportMetric (sample_env True) (sample_metric ''loss'') ''run1''
         [(''run1'', ''accuracy'')] = (None, [(''run1'', ''accuracy''), (''run1'', ''loss'')])"
      "rm_ReportMetric (sample_env True) (sample_metric ''accuracy'') ''run1''
         [(''run1'', ''accuracy'')] =
         (Some (Error InternalError ''Metric was reported before''), [(''run1'', ''accuracy'')])"
    by (simp_all add: sample_env_def sample_metric_def)
  have first: "(case fst (ReportRunMetrics (sample_env True) ''bob'' ?req sample_state) of
         Inl err \<Rightarrow> False
       | Inr response \<Rightarrow>
           map Outcome (Results response) =
             [Ok, Failed (NewInvalidInputError ''Metric name is empty''), Ok])
     \<and> trace (snd (ReportRunMetrics (sample_env True) ''bob'' ?req sample_state)) =
       [RM_GetRun ''run1'', RM_ReportMetric (sample_metric ''accuracy'') ''run1'',
        RM_ReportMetric (sample_metric ''loss'') ''run1'']
     \<and> world (snd (ReportRunMetrics (sample_env True) ''bob'' ?req sample_state)) =
       [(''run1'', ''accuracy''), (''run1'', ''loss'')]"
    using v e g ReportRunMetrics_items_independent [OF h, where ctx = "''bob''"]
    by (simp add: sample_state_def split: sum.splits)
  have second: "case fst (ReportRunMetrics (sample_env True) ''bob'' ?dup sample_state) of
         Inl err \<Rightarrow> False
       | Inr response \<Rightarrow>
           Outcome (Results response ! 0) = Ok
           \<and> Outcome (Results response ! 1) =
               Failed (Error InternalError ''Metric was reported before'')"
    using v e g ReportRunMetrics_items_independent [OF h', where ctx = "''bob''"]
    by (simp add: sample_state_def All_less_Suc NewReportRunMetricResult_def split: sum.splits)
  show ?thesis
    using h v e first second by simp
qed

text \<open>
  Without the acceptance by the engine the three outcomes are not Ok, Failed, Ok: a metric
  that passes validation and that the engine refuses, here because it was reported before
  in the same request, has the engine's error in its slot.
\<close>

theorem ReportRunMetrics_valid_item_refused_counterexample:
  "fst (rm_GetRun (sample_env True) ''run1'' (world sample_state)) = Inr ''run1''
   \<and> ValidateRunMetric (sample_env True) (sample_metric ''accuracy'') = None
   \<and> ValidateRunMetric (sample_env True) (sample_metric []) =
       Some (NewInvalidInputError ''Metric name is empty'')
   \<and> fst (ReportRunMetrics (sample_env True) ''bob''
            \<lparr>RunId = ''run1'',
             Metrics = [sample_metric ''accuracy'', sample_metric [], sample_metric ''accuracy'']\<rparr>
            sample_state) =
       Inr \<lparr>Results =
         [\<lparr>MetricName = ''accuracy'', MetricNodeId = ''node1'', Outcome = Ok\<rparr>,
          \<lparr>MetricName = [], MetricNodeId = ''node1'',
           Outcome = Failed (Error InvalidInput ''Metric name is empty'')\<rparr>,
          \<lparr>MetricName = ''accuracy'', MetricNodeId = ''node1'',
           Outcome = Failed (Error InternalError ''Metric was reported before'')\<rparr>]\<rparr>
   \<and> Failed (Error InternalError ''Metric was reported before'') \<noteq> Ok"
  by (simp add: ReportRunMetrics_def reportItem_def invoke_eq sample_env_def sample_state_def
        sample_metric_def NewReportRunMetricResult_def NewInvalidInputError_def)

text \<open>
  Claim C8. ReportRunMetrics calls the engine's GetRun on the run id of the request first.
  When that call fails, its error is returned as it is, as the failure of the whole call,
  and no metric is processed. In every mode the only calls ReportRunMetrics makes are
  GetRun and the reports of the valid metrics: it never resolves a namespace and never
  asks the authorizer. Its result does not depend on the caller's context, nor on the
  mode.
\<close>

theorem ReportRunMetrics_existence_check_only:
  "(\<forall>err. fst (rm_GetRun env (RunId request) (world s)) = Inl err \<longrightarrow>
      ReportRunMetrics env ctx request s =
        (Inl err, \<lparr>world = snd (rm_GetRun env (RunId request) (world s)),
                   trace = trace s @ [RM_GetRun (RunId request)]\<rparr>))
   \<and> trace (snd (ReportRunMetrics env ctx request s)) =
       trace s @ RM_GetRun (RunId request) #
         (case fst (rm_GetRun env (RunId request) (world s)) of
            Inl err \<Rightarrow> []
          | Inr run \<Rightarrow>
              map (\<lambda>m. RM_ReportMetric m (RunId request))
                (filter (\<lambda>m. ValidateRunMetric env m = None) (Metrics request)))
   \<and> ReportRunMetrics env ctx request s = ReportRunMetrics env ctx' request s
   \<and> ReportRunMetrics (env\<lparr>IsMultiUserMode := multi\<rparr>) ctx request s =
       ReportRunMetrics env ctx request s"
proof -
  have t: "trace (snd (ReportRunMetrics env ctx request s)) =
       trace s @ RM_GetRun (RunId request) #
         (case fst (rm_GetRun env (RunId request) (world s)) of
            Inl err \<Rightarrow> []
          | Inr run \<Rightarrow>
              map (\<lambda>m. RM_ReportMetric m (RunId request))
                (filter (\<lambda>m. ValidateRunMetric env m = None) (Metrics request)))"
  proof (cases "fst (rm_GetRun env (RunId request) (world s))")
    case (Inl err)
    then show ?thesis by (simp add: ReportRunMetrics_not_found)
  next
    case (Inr run)
    then show ?thesis
      by (simp add: ReportRunMetrics_found [OF Inr] reportLoop_trace invoke_eq)
  qed
  have c: "ReportRunMetrics env ctx request s = ReportRunMetrics env ctx' request s"
    by (simp add: ReportRunMetrics_def)
  have loop: "reportLoop (env\<lparr>IsMultiUserMode := multi\<rparr>) r ms acc st = reportLoop env r ms acc st"
    for r ms acc st
  proof (induction ms arbitrary: acc st)
    case Nil
    show ?case by simp
  next
    case (Cons a ms)
    have "reportItem (env\<lparr>IsMultiUserMode := multi\<rparr>) r a st = reportItem env r a st"
      by (cases "ValidateRunMetric env a") (simp_all add: reportItem_def)
    then show ?case by (simp add: Cons.IH split: prod.splits)
  qed
  have m: "ReportRunMetrics (env\<lparr>IsMultiUserMode := multi\<rparr>) ctx request s =
       ReportRunMetrics env ctx request s"
    by (simp add: ReportRunMetrics_def loop split: prod.splits sum.splits)
  show ?thesis
    using t c m by (simp add: ReportRunMetrics_not_found)
qed

theorem ReportRunMetrics_existence_check_only_witness:
  "fst (rm_GetRun (sample_env True) ''run2'' (world sample_state)) = Inl (Error NotFound ''Run not found'')
   \<and> ReportRunMetrics (sample_env True) ''bob''
        \<lparr>RunId = ''run2'', Metrics = [sample_metric ''accuracy'']\<rparr> sample_state =
      (Inl (Error NotFound ''Run not found''), \<lparr>world = [], trace = [RM_GetRun ''run2'']\<rparr>)
   \<and> ReportRunMetrics (sample_env True) ''bob''
        \<lparr>RunId = ''run1'', Metrics = [sample_metric ''accuracy'']\<rparr> sample_state =
      ReportRunMetrics (sample_env True) ''alice''
        \<lparr>RunId = ''run1'', Metrics = [sample_metric ''accuracy'']\<rparr> sample_state"
proof -
  have h: "fst (rm_GetRun (sample_env True)
             (RunId \<lparr>RunId = ''run2'', Metrics = [sample_metric ''accuracy'']\<rparr>)
             (world sample_state)) = Inl (Error NotFound ''Run not found'')"
    by (simp add: sample_env_def)
  show ?thesis
    using h
      ReportRunMetrics_existence_check_only [of "sample_env True"
        "\<lparr>RunId = ''run2'', Metrics = [sample_metric ''accuracy'']\<rparr>" sample_state "''bob''"]
      ReportRunMetrics_existence_check_only [of "sample_env True"
        "\<lparr>RunId = ''run1'', Metrics = [sample_metric ''accuracy'']\<rparr>" sample_state "''bob''" "''alice''"]
    by (simp add: sample_state_def sample_env_def)
qed

subsection \<open>Wrapped errors and the authorization by run id\<close>

lemma Wrap_kind: "kind (Wrap err label) = kind err"
  by (simp add: Wrap_def)

lemma Wrap_message: "sublist (message err) (message (Wrap err label))"
  unfolding Wrap_def sublist_def
  by (rule exI [of _ "label @ '': ''"], rule exI [of _ "[]"]) simp

lemma canAccessRun_single: "\<not> IsMultiUserMode env \<Longrightarrow> canAccessRun env ctx runId s = (None, s)"
  by (simp add: canAccessRun_def)

lemma canAccessRun_empty_namespace:
  assumes "IsMultiUserMode env" and "fst (rm_GetNamespaceFromRunID env runId (world s)) = Inr []"
  shows "canAccessRun env ctx runId s =
     (Some (NewInternalServerError ''There is no namespace found'' ''There is no namespace found''),
      \<lparr>world = snd (rm_GetNamespaceFromRunID env runId (world s)),
       trace = trace s @ [RM_GetNamespaceFromRunID runId]\<rparr>)"
  using assms by (simp add: canAccessRun_def invoke_eq)

lemma authorizedRunCall_single:
  "\<not> IsMultiUserMode env \<Longrightarrow>
   authorizedRunCall env ctx runId c f s =
     (case invoke c f s of (Some err, s2) \<Rightarrow> (Inl err, s2) | (None, s2) \<Rightarrow> (Inr (), s2))"
  by (simp add: authorizedRunCall_def canAccessRun_single)

lemma authorizedRunCall_empty_namespace:
  assumes "IsMultiUserMode env" and "fst (rm_GetNamespaceFromRunID env runId (world s)) = Inr []"
  shows "authorizedRunCall env ctx runId c f s =
     (Inl (Wrap (NewInternalServerError ''There is no namespace found''
                   ''There is no namespace found'') ''Failed to authorize the request.''),
      \<lparr>world = snd (rm_GetNamespaceFromRunID env runId (world s)),
       trace = trace s @ [RM_GetNamespaceFromRunID runId]\<rparr>)"
  by (simp add: authorizedRunCall_def canAccessRun_empty_namespace [OF assms])

subsection \<open>ListRuns\<close>

text \<open>
  Claim C3. In multi-user mode, a ListRuns request whose filter context has no reference
  key, or a reference key whose type is none of Namespace, Experiment and ExperimentUUID,
  or a reference key with an empty id, fails with an InvalidInput error. The state after
  the request is the state before it: no collaborator was called, so the engine's list
  query was never invoked (nor was the authorizer).
\<close>

theorem ListRuns_multi_user_requires_reference:
  assumes "IsMultiUserMode env"
    and "validatedListOptions env (PageToken request) (scast (PageSize request))
           (SortBy request) (Filter request) = Inr opts"
    and "ValidateFilter env (ResourceReferenceKey request) = Inr filterContext"
    and "case ReferenceKey filterContext of
           None \<Rightarrow> True
         | Some refKey \<Rightarrow>
             Type refKey \<notin> {common_Namespace, common_Experiment, ''ExperimentUUID''}
             \<or> ID refKey = []"
  shows "case ListRuns env ctx request s of
           (Inl err, s') \<Rightarrow> kind err = InvalidInput \<and> s' = s
         | (Inr response, s') \<Rightarrow> False"
proof -
  have "\<exists>msg. ListRuns_authorize env ctx request filterContext s = (Some (NewInvalidInputError msg), s)"
    using assms(4)
    by (auto simp add: ListRuns_authorize_def split: option.splits)
  then obtain msg where
    "ListRuns_authorize env ctx request filterContext s = (Some (NewInvalidInputError msg), s)" ..
  then show ?thesis
    using assms(1-3) by (simp add: ListRuns_def NewInvalidInputError_def)
qed

theorem ListRuns_multi_user_requires_reference_witness:
  "IsMultiUserMode (sample_env True)
   \<and> validatedListOptions (sample_env True) [] 10 [] [] = Inr []
   \<and> ValidateFilter (sample_env True) (Some \<lparr>Type = ''Unknown'', ID = ''x''\<rparr>) =
       Inr \<lparr>ReferenceKey = Some \<lparr>Type = ''Unknown'', ID = ''x''\<rparr>\<rparr>
   \<and> ''Unknown'' \<notin> {common_Namespace, common_Experiment, ''ExperimentUUID''}
   \<and> (case ListRuns (sample_env True) ''alice''
              \<lparr>PageToken = [], PageSize = 10, SortBy = [],
               ResourceReferenceKey = Some \<lparr>Type = ''Unknown'', ID = ''x''\<rparr>, Filter = []\<rparr>
              sample_state of
         (Inl err, s') \<Rightarrow> kind err = InvalidInput \<and> s' = sample_state
       | (Inr response, s') \<Rightarrow> False)"
proof -
  let ?req = "\<lparr>PageToken = [], PageSize = 10, SortBy = [],
               ResourceReferenceKey = Some \<lparr>Type = ''Unknown'', ID = ''x''\<rparr>, Filter = []\<rparr>"
  have h1: "IsMultiUserMode (sample_env True)"
    by (simp add: sample_env_def)
  have h2: "validatedListOptions (sample_env True) (PageToken ?req) (scast (PageSize ?req))
              (SortBy ?req) (Filter ?req) = Inr []"
    by (simp add: sample_env_def)
  have h3: "ValidateFilter (sample_env True) (ResourceReferenceKey ?req) =
              Inr \<lparr>ReferenceKey = Some \<lparr>Type = ''Unknown'', ID = ''x''\<rparr>\<rparr>"
    by (simp add: sample_env_def)
  have h4: "case ReferenceKey \<lparr>ReferenceKey = Some \<lparr>Type = ''Unknown'', ID = ''x''\<rparr>\<rparr> of
              None \<Rightarrow> True
            | Some refKey \<Rightarrow>
                Type refKey \<notin> {common_Namespace, common_Experiment, ''ExperimentUUID''}
                \<or> ID refKey = []"
    by (simp add: common_Namespace_def common_Experiment_def)
  show ?thesis
    using h1 h2 h3 h4
      ListRuns_multi_user_requires_reference [OF h1 h2 h3 h4, where ctx = "''alice''" and s = sample_state]
    by (simp add: common_Namespace_def common_Experiment_def)
qed



text \<open>
  Claim C9. ListRuns validates the list options (page token, page size, sort-by and
  filter) and extracts the filter context before any authorization, in both modes. When
  the list options are invalid, or the list options are valid and the extraction of the
  filter context fails, ListRuns returns that error, wrapped with the label of the stage
  (the kind is kept and the message is contained), and the state is unchanged: neither the
  authorizer nor the engine was invoked. Conversely, whenever ListRuns makes any call, both
  validations have succeeded.
\<close>

theorem ListRuns_validation_first:
  "(\<forall>err. validatedListOptions env (PageToken request) (scast (PageSize request))
             (SortBy request) (Filter request) = Inl err \<longrightarrow>
      ListRuns env ctx request s = (Inl (Wrap err ''Failed to create list options''), s)
      \<and> kind (Wrap err ''Failed to create list options'') = kind err
      \<and> sublist (message err) (message (Wrap err ''Failed to create list options'')))
   \<and> (\<forall>opts err.
        validatedListOptions env (PageToken request) (scast (PageSize request))
             (SortBy request) (Filter request) = Inr opts
        \<and> ValidateFilter env (ResourceReferenceKey request) = Inl err \<longrightarrow>
      ListRuns env ctx request s = (Inl (Wrap err ''Validating filter failed.''), s)
      \<and> kind (Wrap err ''Validating filter failed.'') = kind err
      \<and> sublist (message err) (message (Wrap err ''Validating filter failed.'')))
   \<and> (trace (snd (ListRuns env ctx request s)) \<noteq> trace s \<longrightarrow>
        (\<exists>opts filterContext.
           validatedListOptions env (PageToken request) (scast (PageSize request))
             (SortBy request) (Filter request) = Inr opts
           \<and> ValidateFilter env (ResourceReferenceKey request) = Inr filterContext))"
proof -
  have a: "ListRuns env ctx request s = (Inl (Wrap err ''Failed to create list options''), s)"
    if "validatedListOptions env (PageToken request) (scast (PageSize request))
             (SortBy request) (Filter request) = Inl err" for err
    using that by (simp add: ListRuns_def)
  have b: "ListRuns env ctx request s = (Inl (Wrap err ''Validating filter failed.''), s)"
    if "validatedListOptions env (PageToken request) (scast (PageSize request))
             (SortBy request) (Filter request) = Inr opts"
       "ValidateFilter env (ResourceReferenceKey request) = Inl err" for opts err
    using that by (simp add: ListRuns_def)
  have c: "\<exists>opts filterContext.
           validatedListOptions env (PageToken request) (scast (PageSize request))
             (SortBy request) (Filter request) = Inr opts
           \<and> ValidateFilter env (ResourceReferenceKey request) = Inr filterContext"
    if "trace (snd (ListRuns env ctx request s)) \<noteq> trace s"
  proof (cases "validatedListOptions env (PageToken request) (scast (PageSize request))
             (SortBy request) (Filter request)")
    case (Inl err)
    with that a show ?thesis by simp
  next
    case (Inr opts)
    show ?thesis
    proof (cases "ValidateFilter env (ResourceReferenceKey request)")
      case (Inl err)
      with that b [OF Inr] show ?thesis by simp
    next
      case fc: (Inr filterContext)
      with Inr show ?thesis by simp
    qed
  qed
  show ?thesis
    using a b c by (simp add: Wrap_kind Wrap_message)
qed

theorem ListRuns_validation_first_witness:
  "validatedListOptions (sample_env True) [] 10 ''color'' [] =
     Inl (NewInvalidInputError ''Invalid sorting field'')
   \<and> ListRuns (sample_env True) ''alice''
        \<lparr>PageToken = [], PageSize = 10, SortBy = ''color'',
         ResourceReferenceKey = Some \<lparr>Type = ''Namespace'', ID = ''ns1''\<rparr>, Filter = []\<rparr>
        sample_state =
      (Inl (Wrap (NewInvalidInputError ''Invalid sorting field'') ''Failed to create list options''),
       sample_state)
   \<and> validatedListOptions (sample_env False) [] 10 [] [] = Inr []
   \<and> ValidateFilter (sample_env False) (Some \<lparr>Type = ''Unrecognized'', ID = ''x''\<rparr>) =
       Inl (NewInvalidInputError ''Unrecognized resource reference type.'')
   \<and> ListRuns (sample_env False) ''alice''
        \<lparr>PageToken = [], PageSize = 10, SortBy = [],
         ResourceReferenceKey = Some \<lparr>Type = ''Unrecognized'', ID = ''x''\<rparr>, Filter = []\<rparr>
        sample_state =
      (Inl (Wrap (NewInvalidInputError ''Unrecognized resource reference type.'')
              ''Validating filter failed.''),
       sample_state)"
proof -
  let ?r1 = "\<lparr>PageToken = [], PageSize = 10, SortBy = ''color'',
         ResourceReferenceKey = Some \<lparr>Type = ''Namespace'', ID = ''ns1''\<rparr>, Filter = []\<rparr>"
  let ?r2 = "\<lparr>PageToken = [], PageSize = 10, SortBy = [],
         ResourceReferenceKey = Some \<lparr>Type = ''Unrecognized'', ID = ''x''\<rparr>, Filter = []\<rparr>"
  have h1: "validatedListOptions (sample_env True) (PageToken ?r1) (scast (PageSize ?r1))
              (SortBy ?r1) (Filter ?r1) = Inl (NewInvalidInputError ''Invalid sorting field'')"
    by (simp add: sample_env_def)
  have h2: "validatedListOptions (sample_env False) (PageToken ?r2) (scast (PageSize ?r2))
              (SortBy ?r2) (Filter ?r2) = Inr []"
    by (simp add: sample_env_def)
  have h3: "ValidateFilter (sample_env False) (ResourceReferenceKey ?r2) =
              Inl (NewInvalidInputError ''Unrecognized resource reference type.'')"
    by (simp add: sample_env_def)
  show ?thesis
    using h1 h2 h3
      ListRuns_validation_first [where env = "sample_env True" and request = ?r1
        and ctx = "''alice''" and s = sample_state]
      ListRuns_validation_first [where env = "sample_env False" and request = ?r2
        and ctx = "''alice''" and s = sample_state]
    by simp
qed

subsection \<open>The two authorization modes\<close>

text \<open>
  Claim C5. In single-user mode the authorization stage of every operation passes,
  whatever the references, the run id and the namespace are. canAccessRun returns no
  error and leaves the state as it was, so it consulted neither the engine's
  run-to-namespace lookup nor the authorizer. GetRun, ArchiveRun, UnarchiveRun, DeleteRun,
  TerminateRun and RetryRun are then their one engine call and nothing else. ListRuns,
  once the list options and the filter context are valid, is the engine's list query
  alone, with or without a reference key. CreateRun, once the request is valid, is the
  engine's creation alone. The outcome of each operation is that of its payload
  validation and of its engine call.
\<close>

theorem single_user_mode_skips_authorization:
  assumes "\<not> IsMultiUserMode env"
  shows "canAccessRun env ctx runId s = (None, s)
   \<and> GetRun env ctx runId s =
       (case invoke (RM_GetRun runId) (rm_GetRun env runId) s of
          (Inl err, s2) \<Rightarrow> (Inl err, s2)
        | (Inr run, s2) \<Rightarrow> (Inr (ToApiRunDetail env run), s2))
   \<and> ArchiveRun env ctx runId s =
       (case invoke (RM_ArchiveRun runId) (rm_ArchiveRun env runId) s of
          (Some err, s2) \<Rightarrow> (Inl err, s2) | (None, s2) \<Rightarrow> (Inr (), s2))
   \<and> UnarchiveRun env ctx runId s =
       (case invoke (RM_UnarchiveRun runId) (rm_UnarchiveRun env runId) s of
          (Some err, s2) \<Rightarrow> (Inl err, s2) | (None, s2) \<Rightarrow> (Inr (), s2))
   \<and> DeleteRun env ctx runId s =
       (case invoke (RM_DeleteRun runId) (rm_DeleteRun env runId) s of
          (Some err, s2) \<Rightarrow> (Inl err, s2) | (None, s2) \<Rightarrow> (Inr (), s2))
   \<and> TerminateRun env ctx runId s =
       (case invoke (RM_TerminateRun runId) (rm_TerminateRun env runId) s of
          (Some err, s2) \<Rightarrow> (Inl err, s2) | (None, s2) \<Rightarrow> (Inr (), s2))
   \<and> RetryRun env ctx runId s =
       (case invoke (RM_RetryRun runId) (rm_RetryRun env runId) s of
          (Some err, s2) \<Rightarrow> (Inl err, s2) | (None, s2) \<Rightarrow> (Inr (), s2))
   \<and> (\<forall>opts filterContext.
         validatedListOptions env (PageToken request) (scast (PageSize request))
           (SortBy request) (Filter request) = Inr opts
         \<and> ValidateFilter env (ResourceReferenceKey request) = Inr filterContext \<longrightarrow>
         ListRuns env ctx request s =
           (case invoke RM_ListRuns (rm_ListRuns env filterContext opts) s of
              (Inl err, s2) \<Rightarrow> (Inl (Wrap err ''Failed to list runs.''), s2)
            | (Inr (runs, total_size, nextPageToken), s2) \<Rightarrow>
                (Inr \<lparr>Runs = ToApiRuns env runs, TotalSize = ucast total_size,
                      NextPageToken = nextPageToken\<rparr>, s2)))
   \<and> (\<forall>run s1.
         Run createRequest = Some run
         \<and> validateCreateRunRequest env createRequest s = (Inr None, s1) \<longrightarrow>
         CreateRun env ctx createRequest s =
           (case invoke RM_CreateRun (rm_CreateRun env run) s1 of
              (Inl err, s3) \<Rightarrow> (Inr (Inl (Wrap err ''Failed to create a new run.'')), s3)
            | (Inr created, s3) \<Rightarrow> (Inr (Inr (ToApiRunDetail env created)), s3)))"
proof -
  have access: "canAccessRun env ctx runId s = (None, s)"
    by (rule canAccessRun_single [OF assms])
  have get: "GetRun env ctx runId s =
       (case invoke (RM_GetRun runId) (rm_GetRun env runId) s of
          (Inl err, s2) \<Rightarrow> (Inl err, s2)
        | (Inr run, s2) \<Rightarrow> (Inr (ToApiRunDetail env run), s2))"
    by (simp add: GetRun_def access)
  have list: "ListRuns env ctx request s =
           (case invoke RM_ListRuns (rm_ListRuns env filterContext opts) s of
              (Inl err, s2) \<Rightarrow> (Inl (Wrap err ''Failed to list runs.''), s2)
            | (Inr (runs, total_size, nextPageToken), s2) \<Rightarrow>
                (Inr \<lparr>Runs = ToApiRuns env runs, TotalSize = ucast total_size,
                      NextPageToken = nextPageToken\<rparr>, s2))"
    if "validatedListOptions env (PageToken request) (scast (PageSize request))
           (SortBy request) (Filter request) = Inr opts"
       "ValidateFilter env (ResourceReferenceKey request) = Inr filterContext"
    for opts filterContext
    using that assms by (simp add: ListRuns_def)
  have create: "CreateRun env ctx createRequest s =
           (case invoke RM_CreateRun (rm_CreateRun env run) s1 of
              (Inl err, s3) \<Rightarrow> (Inr (Inl (Wrap err ''Failed to create a new run.'')), s3)
            | (Inr created, s3) \<Rightarrow> (Inr (Inr (ToApiRunDetail env created)), s3))"
    if "Run createRequest = Some run"
       "validateCreateRunRequest env createRequest s = (Inr None, s1)"
    for run s1
    using that assms by (simp add: CreateRun_def CanAccessExperimentInResourceReferences_def)
  show ?thesis
    using access get list create
    by (simp add: ArchiveRun_def UnarchiveRun_def DeleteRun_def TerminateRun_def RetryRun_def
          authorizedRunCall_single [OF assms])
qed

theorem single_user_mode_skips_authorization_witness:
  "\<not> IsMultiUserMode (sample_env False)
   \<and> canAccessRun (sample_env False) ''bob'' ''orphan'' sample_state = (None, sample_state)
   \<and> GetRun (sample_env False) ''bob'' ''orphan'' sample_state =
       (Inr ''orphan'', \<lparr>world = [], trace = [RM_GetRun ''orphan'']\<rparr>)
   \<and> DeleteRun (sample_env False) ''bob'' ''orphan'' sample_state =
       (Inr (), \<lparr>world = [], trace = [RM_DeleteRun ''orphan'']\<rparr>)
   \<and> fst (ListRuns (sample_env False) ''bob''
        \<lparr>PageToken = [], PageSize = 10, SortBy = [], ResourceReferenceKey = None, Filter = []\<rparr>
        sample_state) =
       Inr \<lparr>Runs = [\<lparr>Name = ''run1'', PipelineSpec = [], ResourceReferences = []\<rparr>],
            TotalSize = 1, NextPageToken = []\<rparr>"
proof -
  let ?req = "\<lparr>PageToken = [], PageSize = 10, SortBy = [], ResourceReferenceKey = None,
               Filter = []\<rparr> :: ReferenceKey ListRunsRequest"
  have h: "\<not> IsMultiUserMode (sample_env False)"
    by (simp add: sample_env_def)
  have o: "validatedListOptions (sample_env False) (PageToken ?req) (scast (PageSize ?req))
             (SortBy ?req) (Filter ?req) = Inr []"
    "ValidateFilter (sample_env False) (ResourceReferenceKey ?req) = Inr \<lparr>ReferenceKey = None\<rparr>"
    by (simp_all add: sample_env_def)
  have e: "rm_GetRun (sample_env False) ''orphan'' [] = (Inr ''orphan'', [])"
    "rm_DeleteRun (sample_env False) ''orphan'' [] = (None, [])"
    "rm_ListRuns (sample_env False) \<lparr>ReferenceKey = None\<rparr> [] [] = (Inr ([''run1''], 1, []), [])"
    "ToApiRunDetail (sample_env False) = (\<lambda>run. run)"
    "ToApiRuns (sample_env False) [''run1''] =
       [\<lparr>Name = ''run1'', PipelineSpec = [], ResourceReferences = []\<rparr>]"
    by (simp_all add: sample_env_def)
  show ?thesis
    using h o
      single_user_mode_skips_authorization [OF h, where ctx = "''bob''" and runId = "''orphan''"
        and s = sample_state and request = ?req]
    by (simp add: invoke_eq sample_state_def e)
qed

text \<open>
  Claim C6. In multi-user mode, when the engine resolves the run id to an empty namespace,
  each of GetRun, ArchiveRun, UnarchiveRun, DeleteRun, TerminateRun and RetryRun fails
  with an error of kind InternalError, which is neither AuthorizationDenied nor NotFound.
  The only call made is the resolution of the namespace: the authorizer is not asked and
  the operation is not delegated to the engine.
\<close>

theorem empty_namespace_is_internal_error:
  assumes "IsMultiUserMode env"
    and "fst (rm_GetNamespaceFromRunID env runId (world s)) = Inr []"
  shows "(case GetRun env ctx runId s of
            (Inl err, s') \<Rightarrow>
              kind err = InternalError \<and> kind err \<noteq> AuthorizationDenied \<and> kind err \<noteq> NotFound
              \<and> trace s' = trace s @ [RM_GetNamespaceFromRunID runId]
          | (Inr run, s') \<Rightarrow> False)
   \<and> (case ArchiveRun env ctx runId s of
            (Inl err, s') \<Rightarrow>
              kind err = InternalError \<and> kind err \<noteq> AuthorizationDenied \<and> kind err \<noteq> NotFound
              \<and> trace s' = trace s @ [RM_GetNamespaceFromRunID runId]
          | (Inr u, s') \<Rightarrow> False)
   \<and> (case UnarchiveRun env ctx runId s of
            (Inl err, s') \<Rightarrow>
              kind err = InternalError \<and> kind err \<noteq> AuthorizationDenied \<and> kind err \<noteq> NotFound
              \<and> trace s' = trace s @ [RM_GetNamespaceFromRunID runId]
          | (Inr u, s') \<Rightarrow> False)
   \<and> (case DeleteRun env ctx runId s of
            (Inl err, s') \<Rightarrow>
              kind err = InternalError \<and> kind err \<noteq> AuthorizationDenied \<and> kind err \<noteq> NotFound
              \<and> trace s' = trace s @ [RM_GetNamespaceFromRunID runId]
          | (Inr u, s') \<Rightarrow> False)
   \<and> (case TerminateRun env ctx runId s of
            (Inl err, s') \<Rightarrow>
              kind err = InternalError \<and> kind err \<noteq> AuthorizationDenied \<and> kind err \<noteq> NotFound
              \<and> trace s' = trace s @ [RM_GetNamespaceFromRunID runId]
          | (Inr u, s') \<Rightarrow> False)
   \<and> (case RetryRun env ctx runId s of
            (Inl err, s') \<Rightarrow>
              kind err = InternalError \<and> kind err \<noteq> AuthorizationDenied \<and> kind err \<noteq> NotFound
              \<and> trace s' = trace s @ [RM_GetNamespaceFromRunID runId]
          | (Inr u, s') \<Rightarrow> False)"
proof -
  have get: "GetRun env ctx runId s =
     (Inl (Wrap (NewInternalServerError ''There is no namespace found''
                   ''There is no namespace found'') ''Failed to authorize the request.''),
      \<lparr>world = snd (rm_GetNamespaceFromRunID env runId (world s)),
       trace = trace s @ [RM_GetNamespaceFromRunID runId]\<rparr>)"
    by (simp add: GetRun_def canAccessRun_empty_namespace [OF assms])
  show ?thesis
    by (simp add: get ArchiveRun_def UnarchiveRun_def DeleteRun_def TerminateRun_def RetryRun_def
          authorizedRunCall_empty_namespace [OF assms] Wrap_kind NewInternalServerError_def)
qed

theorem empty_namespace_is_internal_error_witness:
  "IsMultiUserMode (sample_env True)
   \<and> fst (rm_GetNamespaceFromRunID (sample_env True) ''orphan'' (world sample_state)) = Inr []
   \<and> (case GetRun (sample_env True) ''alice'' ''orphan'' sample_state of
         (Inl err, s') \<Rightarrow>
           kind err = InternalError \<and> trace s' = [RM_GetNamespaceFromRunID ''orphan'']
       | (Inr run, s') \<Rightarrow> False)
   \<and> (case TerminateRun (sample_env True) ''alice'' ''orphan'' sample_state of
         (Inl err, s') \<Rightarrow>
           kind err = InternalError \<and> trace s' = [RM_GetNamespaceFromRunID ''orphan'']
       | (Inr u, s') \<Rightarrow> False)"
proof -
  have h1: "IsMultiUserMode (sample_env True)"
    by (simp add: sample_env_def)
  have h2: "fst (rm_GetNamespaceFromRunID (sample_env True) ''orphan'' (world sample_state)) = Inr []"
    by (simp add: sample_env_def)
  show ?thesis
    using h1 h2 empty_namespace_is_internal_error [OF h1 h2, where ctx = "''alice''"]
    by (simp add: sample_state_def split: prod.splits sum.splits)
qed

subsection \<open>CreateRun\<close>

lemma Wrap_label_message:
  "sublist (message e2) (message (Wrap e1 (label @ message e2)))"
  unfolding Wrap_def sublist_def
  by (rule exI [of _ label], rule exI [of _ "'': '' @ message e1"]) simp

text \<open>
  Claim C4, as amended. For a CreateRun request with a run whose name is not empty: when
  the pipeline spec is valid, the validation of the request succeeds and the only call it
  makes is the validation of the spec, so the pipeline version reference is never checked;
  when the spec is invalid and the resource references hold a valid pipeline version
  reference, the validation succeeds; when the spec is invalid and the check of the version
  reference fails too, the validation fails with an error whose message contains the
  messages of both failures and whose kind is the kind of the error of the spec validation
  (InvalidInput when that error is InvalidInput).
\<close>

theorem validateCreateRunRequest_spec_or_version:
  assumes "Run request = Some run" and "Name run \<noteq> []"
  shows "(\<forall>w1. ValidatePipelineSpec env (PipelineSpec run) (world s) = (None, w1) \<longrightarrow>
            validateCreateRunRequest env request s =
              (Inr None, \<lparr>world = w1, trace = trace s @ [Call_ValidatePipelineSpec]\<rparr>))
   \<and> (\<forall>err w1 version w2.
          ValidatePipelineSpec env (PipelineSpec run) (world s) = (Some err, w1)
          \<and> CheckPipelineVersionReference env (ResourceReferences run) w1 = (Inr version, w2) \<longrightarrow>
            validateCreateRunRequest env request s =
              (Inr None, \<lparr>world = w2,
                 trace = trace s @ [Call_ValidatePipelineSpec, Call_CheckPipelineVersionReference]\<rparr>))
   \<and> (\<forall>err w1 errResourceReference w2.
          ValidatePipelineSpec env (PipelineSpec run) (world s) = (Some err, w1)
          \<and> CheckPipelineVersionReference env (ResourceReferences run) w1 =
              (Inl errResourceReference, w2) \<longrightarrow>
            (case fst (validateCreateRunRequest env request s) of
               Inr (Some e) \<Rightarrow>
                 kind e = kind err
                 \<and> sublist (message err) (message e)
                 \<and> sublist (message errResourceReference) (message e)
             | _ \<Rightarrow> False))"
proof -
  have valid: "validateCreateRunRequest env request s =
              (Inr None, \<lparr>world = w1, trace = trace s @ [Call_ValidatePipelineSpec]\<rparr>)"
    if "ValidatePipelineSpec env (PipelineSpec run) (world s) = (None, w1)" for w1
    using that assms by (simp add: validateCreateRunRequest_def invoke_eq)
  have version: "validateCreateRunRequest env request s =
              (Inr None, \<lparr>world = w2,
                 trace = trace s @ [Call_ValidatePipelineSpec, Call_CheckPipelineVersionReference]\<rparr>)"
    if "ValidatePipelineSpec env (PipelineSpec run) (world s) = (Some err, w1)"
       "CheckPipelineVersionReference env (ResourceReferences run) w1 = (Inr version, w2)"
    for err w1 version w2
    using that assms by (simp add: validateCreateRunRequest_def invoke_eq)
  have neither: "fst (validateCreateRunRequest env request s) =
       Inr (Some (Wrap err (''Neither pipeline spec nor pipeline version is valid. ''
                              @ message errResourceReference)))"
    if "ValidatePipelineSpec env (PipelineSpec run) (world s) = (Some err, w1)"
       "CheckPipelineVersionReference env (ResourceReferences run) w1 =
              (Inl errResourceReference, w2)"
    for err w1 errResourceReference w2
    using that assms by (simp add: validateCreateRunRequest_def invoke_eq)
  show ?thesis
  proof (intro conjI allI impI)
    fix w1
    assume "ValidatePipelineSpec env (PipelineSpec run) (world s) = (None, w1)"
    then show "validateCreateRunRequest env request s =
              (Inr None, \<lparr>world = w1, trace = trace s @ [Call_ValidatePipelineSpec]\<rparr>)"
      by (rule valid)
  next
    fix err w1 version w2
    assume "ValidatePipelineSpec env (PipelineSpec run) (world s) = (Some err, w1)
          \<and> CheckPipelineVersionReference env (ResourceReferences run) w1 = (Inr version, w2)"
    then show "validateCreateRunRequest env request s =
              (Inr None, \<lparr>world = w2,
                 trace = trace s @ [Call_ValidatePipelineSpec, Call_CheckPipelineVersionReference]\<rparr>)"
      using version by blast
  next
    fix err w1 errResourceReference w2
    assume "ValidatePipelineSpec env (PipelineSpec run) (world s) = (Some err, w1)
          \<and> CheckPipelineVersionReference env (ResourceReferences run) w1 =
              (Inl errResourceReference, w2)"
    then have failed: "fst (validateCreateRunRequest env request s) =
       Inr (Some (Wrap err (''Neither pipeline spec nor pipeline version is valid. ''
                              @ message errResourceReference)))"
      using neither by blast
    show "case fst (validateCreateRunRequest env request s) of
               Inr (Some e) \<Rightarrow>
                 kind e = kind err
                 \<and> sublist (message err) (message e)
                 \<and> sublist (message errResourceReference) (message e)
             | _ \<Rightarrow> False"
      by (simp only: failed sum.case option.case Wrap_kind Wrap_message Wrap_label_message
            simp_thms)
  qed
qed

theorem validateCreateRunRequest_spec_or_version_witness:
  "Run \<lparr>Run = Some \<lparr>Name = ''train'', PipelineSpec = [], ResourceReferences = []\<rparr>\<rparr> =
     Some \<lparr>Name = ''train'', PipelineSpec = [], ResourceReferences = []\<rparr>
   \<and> ''train'' \<noteq> []
   \<and> ValidatePipelineSpec (sample_env False) [] (world sample_state) =
       (Some (NewInvalidInputError ''Please specify a pipeline''), [])
   \<and> CheckPipelineVersionReference (sample_env False) [] [] =
       (Inl (NewInvalidInputError ''No pipeline version''), [])
   \<and> (case fst (validateCreateRunRequest (sample_env False)
                  \<lparr>Run = Some \<lparr>Name = ''train'', PipelineSpec = [], ResourceReferences = []\<rparr>\<rparr>
                  sample_state) of
         Inr (Some e) \<Rightarrow>
           kind e = InvalidInput
           \<and> sublist ''Please specify a pipeline'' (message e)
           \<and> sublist ''No pipeline version'' (message e)
       | _ \<Rightarrow> False)"
proof -
  let ?run = "\<lparr>Name = ''train'', PipelineSpec = [], ResourceReferences = []\<rparr>
                :: (string, string) api_Run"
  have h1: "Run \<lparr>Run = Some ?run\<rparr> = Some ?run"
    by simp
  have h2: "Name ?run \<noteq> []"
    by simp
  have h3: "ValidatePipelineSpec (sample_env False) (PipelineSpec ?run) (world sample_state) =
              (Some (NewInvalidInputError ''Please specify a pipeline''), [])"
    by (simp add: sample_env_def sample_state_def)
  have h4: "CheckPipelineVersionReference (sample_env False) (ResourceReferences ?run) [] =
              (Inl (NewInvalidInputError ''No pipeline version''), [])"
    by (simp add: sample_env_def)
  show ?thesis
    using h1 h2 h3 h4
      validateCreateRunRequest_spec_or_version [OF h1 h2, where env = "sample_env False"
        and s = sample_state]
    by (simp add: NewInvalidInputError_def split: sum.splits option.splits)
qed

text \<open>
  The error of the failed validation is the wrapped error of the spec validation, so it is
  not an InvalidInput error when the spec validation fails for another reason: a spec that
  names a pipeline the engine does not know fails with NotFound, and without a version
  reference the validation of the request fails with NotFound as well.
\<close>

theorem validateCreateRunRequest_kind_counterexample:
  "Name \<lparr>Name = ''train'', PipelineSpec = ''missing'', ResourceReferences = []\<rparr> \<noteq> []
   \<and> ValidatePipelineSpec (sample_env False) ''missing'' (world sample_state) =
       (Some (Error NotFound ''Get pipelineId failed.''), [])
   \<and> CheckPipelineVersionReference (sample_env False) [] [] =
       (Inl (Error InvalidInput ''No pipeline version''), [])
   \<and> fst (validateCreateRunRequest (sample_env False)
            \<lparr>Run = Some \<lparr>Name = ''train'', PipelineSpec = ''missing'', ResourceReferences = []\<rparr>\<rparr>
            sample_state) =
       Inr (Some (Error NotFound
         ''Neither pipeline spec nor pipeline version is valid. No pipeline version: Get pipelineId failed.''))
   \<and> NotFound \<noteq> InvalidInput"
  by (simp add: validateCreateRunRequest_def invoke_eq sample_env_def sample_state_def Wrap_def
        NewInvalidInputError_def)

text \<open>
  Claim C10. The validation of a CreateRun request reads the name, the pipeline spec and
  the resource references of the run of the request without a check that the run is
  present. A request without a run makes the validation, and CreateRun with it, fault with
  a nil pointer dereference and return no error value, in particular no InvalidInput
  error. A request with a run never faults, and an empty name of the run is then the
  InvalidInput error of the empty name.
\<close>

theorem CreateRun_absent_Run_faults:
  "(Run request = None \<longrightarrow>
      validateCreateRunRequest env request s = (Inl NilPointerDereference, s)
      \<and> CreateRun env ctx request s = (Inl NilPointerDereference, s))
   \<and> (\<forall>run. Run request = Some run \<longrightarrow>
         fst (validateCreateRunRequest env request s) \<noteq> Inl NilPointerDereference
         \<and> fst (CreateRun env ctx request s) \<noteq> Inl NilPointerDereference
         \<and> (Name run = [] \<longrightarrow>
              validateCreateRunRequest env request s =
                (Inr (Some (NewInvalidInputError
                   ''The run name is empty. Please specify a valid name.'')), s)))"
proof -
  have absent: "validateCreateRunRequest env request s = (Inl NilPointerDereference, s)"
    if "Run request = None"
    using that by (simp add: validateCreateRunRequest_def)
  have present: "fst (validateCreateRunRequest env request s) \<noteq> Inl NilPointerDereference"
    if "Run request = Some run" for run
    using that
    by (simp add: validateCreateRunRequest_def invoke_eq split: option.splits sum.splits prod.splits)
  have created: "fst (CreateRun env ctx request s) \<noteq> Inl NilPointerDereference"
    if "Run request = Some run" for run
    using present [OF that] that
    by (cases "validateCreateRunRequest env request s")
       (auto simp add: CreateRun_def split: option.splits sum.splits prod.splits)
  have empty: "validateCreateRunRequest env request s =
                (Inr (Some (NewInvalidInputError
                   ''The run name is empty. Please specify a valid name.'')), s)"
    if "Run request = Some run" "Name run = []" for run
    using that by (simp add: validateCreateRunRequest_def)
  show ?thesis
    using absent present created empty by (simp add: CreateRun_def)
qed

theorem CreateRun_absent_Run_faults_witness:
  "Run \<lparr>Run = None :: (string, string) api_Run option\<rparr> = None
   \<and> validateCreateRunRequest (sample_env True) \<lparr>Run = None\<rparr> sample_state =
       (Inl NilPointerDereference, sample_state)
   \<and> CreateRun (sample_env True) ''alice'' \<lparr>Run = None\<rparr> sample_state =
       (Inl NilPointerDereference, sample_state)"
  using CreateRun_absent_Run_faults [where env = "sample_env True" and ctx = "''alice''"
      and request = "\<lparr>Run = None\<rparr>" and s = sample_state]
  by simp

end
